theory Spec2Isabelle
  imports Main "HOL-Library.Word"
begin

section \<open>Package pki: private key generation, encoding and comparison\<close>

text \<open>
  A shallow embedding of \<^verbatim>\<open>pkg/util/pki/generate.go\<close>: the generators, the encoders and
  the comparison of public keys, each under its Go name. What the file imports and
  does not define is of two kinds. The functions of the Go standard library
  (\<^verbatim>\<open>crypto/...\<close>, \<^verbatim>\<open>encoding/pem\<close>) are the fields of the record \<open>crypto\<close> below, so that
  a theorem holds for every behaviour of the library that its hypotheses allow. The
  constants and the copy function of the API package \<^verbatim>\<open>v1\<close> are definitions marked as
  modelled.
\<close>

subsection \<open>Constants (generate.go, lines 33-48)\<close>

definition MinRSAKeySize :: int where
  "MinRSAKeySize = 2048"

definition MaxRSAKeySize :: int where
  "MaxRSAKeySize = 8192"

definition ECCurve256 :: int where
  "ECCurve256 = 256"

definition ECCurve384 :: int where
  "ECCurve384 = 384"

definition ECCurve521 :: int where
  "ECCurve521 = 521"

subsection \<open>Errors\<close>

text \<open>
  Go's \<^verbatim>\<open>fmt.Errorf\<close> builds an error that carries a message only. Every call site of
  \<^verbatim>\<open>fmt.Errorf\<close> in the file is one constructor, holding the arguments of the format;
  \<open>Error\<close> renders the message, as the method \<^verbatim>\<open>Error()\<close> does.
  \<open>LibraryError\<close> is an error returned by a call into the standard library (a failing
  random source, a key the library cannot marshal), which the file hands on.
\<close>

datatype error =
    UnsupportedAlgorithm string  \<comment> \<open>line 79, \<^verbatim>\<open>%s\<close> of the algorithm\<close>
  | WeakKey int int  \<comment> \<open>line 89, the key size and the minimum\<close>
  | ExcessiveKeySize int int  \<comment> \<open>line 92, the key size and the maximum\<close>
  | UnsupportedCurveSize int  \<comment> \<open>line 111\<close>
  | UnknownKeyType string  \<comment> \<open>line 139, \<^verbatim>\<open>%T\<close> of the key\<close>
  | UnknownEncoding string  \<comment> \<open>line 144, \<^verbatim>\<open>%s\<close> of the encoding\<close>
  | ECEncodingError string  \<comment> \<open>line 170, the message of the library's error\<close>
  | UnrecognisedKeyType string  \<comment> \<open>line 223, \<^verbatim>\<open>%T\<close> of the key\<close>
  | LibraryError string

text \<open>The verb \<^verbatim>\<open>%d\<close>: a decimal numeral, with a minus sign when negative.\<close>

fun fmt_nat :: "nat \<Rightarrow> string" where
  "fmt_nat n =
     (if n < 10 then [''0123456789'' ! n]
      else fmt_nat (n div 10) @ [''0123456789'' ! (n mod 10)])"

declare fmt_nat.simps [simp del]

definition fmt_d :: "int \<Rightarrow> string" where
  "fmt_d i = (if i < 0 then CHR ''-'' # fmt_nat (nat (- i)) else fmt_nat (nat i))"

fun Error :: "error \<Rightarrow> string" where
  "Error (UnsupportedAlgorithm a) = ''unsupported private key algorithm specified: '' @ a"
| "Error (WeakKey s m) =
     ''weak rsa key size specified: '' @ fmt_d s @ ''. minimum key size: '' @ fmt_d m"
| "Error (ExcessiveKeySize s m) =
     ''rsa key size specified too big: '' @ fmt_d s @ ''. maximum key size: '' @ fmt_d m"
| "Error (UnsupportedCurveSize s) = ''unsupported ecdsa key size specified: '' @ fmt_d s"
| "Error (UnknownKeyType t) = ''error encoding private key: unknown key type: '' @ t"
| "Error (UnknownEncoding e) = ''error encoding private key: unknown key encoding: '' @ e"
| "Error (ECEncodingError m) = ''error encoding private key: '' @ m"
| "Error (UnrecognisedKeyType t) = ''unrecognised public key type: '' @ t"
| "Error (LibraryError m) = m"

subsection \<open>Keys\<close>

text \<open>
  The key types of the standard library, with the fields the comparisons read.
  \<^verbatim>\<open>rsa.PrivateKey\<close> and \<^verbatim>\<open>ecdsa.PrivateKey\<close> embed their public key, which a record
  extension gives. Big integers are \<open>int\<close>. A value of the interface types
  \<^verbatim>\<open>crypto.PrivateKey\<close> and \<^verbatim>\<open>crypto.PublicKey\<close> (both \<^verbatim>\<open>any\<close>) is one of the three dynamic
  types the type switches of the file name, or a value of some other dynamic type, of
  which only the name that \<^verbatim>\<open>%T\<close> prints is kept. Pointers to keys are not nil.
\<close>

type_synonym byte = "8 word"

datatype Curve = P224 | P256 | P384 | P521

record rsa_PublicKey =
  rsa_N :: int
  rsa_E :: int

record rsa_PrivateKey = rsa_PublicKey +
  rsa_D :: int
  rsa_Primes :: "int list"

record ecdsa_PublicKey =
  ecdsa_Curve :: Curve
  ecdsa_X :: int
  ecdsa_Y :: int

record ecdsa_PrivateKey = ecdsa_PublicKey +
  ecdsa_D :: int

datatype PrivateKey =
    RSAPrivateKey rsa_PrivateKey  \<comment> \<open>\<^verbatim>\<open>*rsa.PrivateKey\<close>\<close>
  | ECDSAPrivateKey ecdsa_PrivateKey  \<comment> \<open>\<^verbatim>\<open>*ecdsa.PrivateKey\<close>\<close>
  | Ed25519PrivateKey "byte list"  \<comment> \<open>\<^verbatim>\<open>ed25519.PrivateKey\<close>\<close>
  | OtherPrivateKey string  \<comment> \<open>any other dynamic type, by name\<close>

datatype PublicKey =
    RSAPublicKey rsa_PublicKey  \<comment> \<open>\<^verbatim>\<open>*rsa.PublicKey\<close>\<close>
  | ECDSAPublicKey ecdsa_PublicKey  \<comment> \<open>\<^verbatim>\<open>*ecdsa.PublicKey\<close>\<close>
  | Ed25519PublicKey "byte list"  \<comment> \<open>\<^verbatim>\<open>ed25519.PublicKey\<close>\<close>
  | OtherPublicKey string  \<comment> \<open>any other dynamic type, by name\<close>

text \<open>
  \<^verbatim>\<open>big.Int.BitLen\<close>: the length of the absolute value in bits; the bit length of 0 is 0.
\<close>

fun bitlen_nat :: "nat \<Rightarrow> nat" where
  "bitlen_nat n = (if n = 0 then 0 else Suc (bitlen_nat (n div 2)))"

declare bitlen_nat.simps [simp del]

definition BitLen :: "int \<Rightarrow> int" where
  "BitLen x = int (bitlen_nat (nat \<bar>x\<bar>))"

text \<open>
  \<^verbatim>\<open>ed25519.PrivateKeySize\<close>: an Ed25519 private key is a slice of 64 bytes, the seed of
  32 bytes before the public key.
\<close>

definition ed25519_PrivateKeySize :: nat where
  "ed25519_PrivateKeySize = 64"

subsection \<open>The standard library\<close>

text \<open>
  The library functions the file calls, as parameters. The generators read the random
  source \<^verbatim>\<open>rand.Reader\<close>, of type \<open>'r\<close> here; the marshalling functions and
  \<^verbatim>\<open>pem.EncodeToMemory\<close> take no reader. The last three are the methods \<^verbatim>\<open>Equal\<close> of
  the public key types. A Go result \<^verbatim>\<open>(value, error)\<close> is a sum: \<open>Inl\<close> the error,
  \<open>Inr\<close> the value.
\<close>

record pem_Block =
  pem_Type :: string
  pem_Bytes :: "byte list"

record 'r crypto =
  rsa_GenerateKey :: "'r \<Rightarrow> int \<Rightarrow> error + rsa_PrivateKey"
  ecdsa_GenerateKey :: "Curve \<Rightarrow> 'r \<Rightarrow> error + ecdsa_PrivateKey"
  ed25519_GenerateKey :: "'r \<Rightarrow> error + (byte list \<times> byte list)"
  x509_MarshalPKCS1PrivateKey :: "rsa_PrivateKey \<Rightarrow> byte list"
  x509_MarshalPKCS8PrivateKey :: "PrivateKey \<Rightarrow> error + byte list"
  x509_MarshalECPrivateKey :: "ecdsa_PrivateKey \<Rightarrow> error + byte list"
  pem_EncodeToMemory :: "pem_Block \<Rightarrow> byte list"
  rsa_PublicKey_Equal :: "rsa_PublicKey \<Rightarrow> PublicKey \<Rightarrow> bool"
  ecdsa_PublicKey_Equal :: "ecdsa_PublicKey \<Rightarrow> PublicKey \<Rightarrow> bool"
  ed25519_PublicKey_Equal :: "byte list \<Rightarrow> PublicKey \<Rightarrow> bool"

subsection \<open>Key generation (generate.go, lines 83-123)\<close>

definition GenerateRSAPrivateKey :: "'r crypto \<Rightarrow> 'r \<Rightarrow> int \<Rightarrow> error + rsa_PrivateKey" where
  "GenerateRSAPrivateKey lib rand_Reader keySize =
     (if keySize < MinRSAKeySize then Inl (WeakKey keySize MinRSAKeySize)
      else if keySize > MaxRSAKeySize then Inl (ExcessiveKeySize keySize MaxRSAKeySize)
      else rsa_GenerateKey lib rand_Reader keySize)"

definition GenerateECPrivateKey :: "'r crypto \<Rightarrow> 'r \<Rightarrow> int \<Rightarrow> error + ecdsa_PrivateKey" where
  "GenerateECPrivateKey lib rand_Reader keySize =
     (if keySize = ECCurve256 then ecdsa_GenerateKey lib P256 rand_Reader
      else if keySize = ECCurve384 then ecdsa_GenerateKey lib P384 rand_Reader
      else if keySize = ECCurve521 then ecdsa_GenerateKey lib P521 rand_Reader
      else Inl (UnsupportedCurveSize keySize))"

definition GenerateEd25519PrivateKey :: "'r crypto \<Rightarrow> 'r \<Rightarrow> error + byte list" where
  "GenerateEd25519PrivateKey lib rand_Reader =
     (case ed25519_GenerateKey lib rand_Reader of
        Inl err \<Rightarrow> Inl err
      | Inr (_, prvkey) \<Rightarrow> Inr prvkey)"

subsection \<open>The certificate resource\<close>

text \<open>
  Modelled from the spec: the API package \<^verbatim>\<open>v1\<close> is not part of the file. Its selector
  types are strings (\<^verbatim>\<open>PrivateKeyAlgorithm\<close>, \<^verbatim>\<open>PrivateKeyEncoding\<close>); the spec names the
  selectors RSA, ECDSA and Ed25519 and the formats legacy (PKCS#1) and generic (PKCS#8).
  The constants below carry the values of the cert-manager API; the theorems use only
  that they differ from each other and from the empty string.
\<close>

definition RSAKeyAlgorithm :: string where
  "RSAKeyAlgorithm = ''RSA''"

definition ECDSAKeyAlgorithm :: string where
  "ECDSAKeyAlgorithm = ''ECDSA''"

definition Ed25519KeyAlgorithm :: string where
  "Ed25519KeyAlgorithm = ''Ed25519''"

definition PKCS1 :: string where
  "PKCS1 = ''PKCS1''"

definition PKCS8 :: string where
  "PKCS8 = ''PKCS8''"

text \<open>
  \<^verbatim>\<open>GeneratePrivateKeyForCertificate\<close> takes a pointer to a certificate, whose field
  \<^verbatim>\<open>Spec.PrivateKey\<close> is again a pointer, and assigns to that field. The objects
  therefore live in a store: a pointer is \<open>None\<close> (nil) or \<open>Some a\<close>, the address \<open>a\<close>
  being an index into the list of the allocated objects of its type, and \<^verbatim>\<open>new\<close> appends
  to the list. Go has no dangling pointers; an address beyond the list reads like nil.
  Of the certificate, the name stands for all the fields the file does not read.
\<close>

type_synonym ptr = "nat option"

record CertificatePrivateKey =
  RotationPolicy :: string
  Encoding :: string
  Algorithm :: string
  Size :: int

record Certificate =
  Name :: string
  Spec_PrivateKey :: ptr

record heap =
  certs :: "Certificate list"
  pkeys :: "CertificatePrivateKey list"

definition deref :: "'a list \<Rightarrow> ptr \<Rightarrow> 'a option" where
  "deref objs p =
     (case p of None \<Rightarrow> None
      | Some a \<Rightarrow> if a < length objs then Some (objs ! a) else None)"

definition new_pkey :: "heap \<Rightarrow> CertificatePrivateKey \<Rightarrow> heap \<times> ptr" where
  "new_pkey h v = (h\<lparr>pkeys := pkeys h @ [v]\<rparr>, Some (length (pkeys h)))"

definition new_cert :: "heap \<Rightarrow> Certificate \<Rightarrow> heap \<times> ptr" where
  "new_cert h v = (h\<lparr>certs := certs h @ [v]\<rparr>, Some (length (certs h)))"

text \<open>The zero value \<^verbatim>\<open>v1.CertificatePrivateKey{}\<close>.\<close>

definition zero_CertificatePrivateKey :: CertificatePrivateKey where
  "zero_CertificatePrivateKey =
     \<lparr>RotationPolicy = [], Encoding = [], Algorithm = [], Size = 0\<rparr>"

text \<open>
  Modelled from the spec: \<^verbatim>\<open>DeepCopy\<close> is generated code of the package \<^verbatim>\<open>v1\<close>, not part
  of the file. Of nil it returns nil; otherwise it allocates a new certificate with
  the same fields, whose private-key section, when there is one, is a new object with
  the same fields. It writes to no object that exists.
\<close>

definition DeepCopy :: "heap \<Rightarrow> ptr \<Rightarrow> heap \<times> ptr" where
  "DeepCopy h crt =
     (case deref (certs h) crt of
        None \<Rightarrow> (h, None)
      | Some c \<Rightarrow>
          (case deref (pkeys h) (Spec_PrivateKey c) of
             None \<Rightarrow> new_cert h (c\<lparr>Spec_PrivateKey := None\<rparr>)
           | Some pk \<Rightarrow>
               (let (h1, q) = new_pkey h pk
                in new_cert h1 (c\<lparr>Spec_PrivateKey := q\<rparr>))))"

subsection \<open>Key generation for a certificate (generate.go, lines 50-81)\<close>

text \<open>
  The result type \<^verbatim>\<open>crypto.Signer\<close> is an interface: the key of a generator is returned
  as a value of the interface, its error as it is.
\<close>

definition as_Signer :: "('k \<Rightarrow> PrivateKey) \<Rightarrow> error + 'k \<Rightarrow> error + PrivateKey" where
  "as_Signer wrap r = (case r of Inl err \<Rightarrow> Inl err | Inr k \<Rightarrow> Inr (wrap k))"

text \<open>The \<^verbatim>\<open>switch\<close> on the algorithm, lines 59-80, on the private-key section it reads.\<close>

definition switch_Algorithm ::
  "'r crypto \<Rightarrow> 'r \<Rightarrow> CertificatePrivateKey \<Rightarrow> error + PrivateKey" where
  "switch_Algorithm lib rand_Reader pk =
     (if Algorithm pk = [] \<or> Algorithm pk = RSAKeyAlgorithm then
        (let keySize = (if Size pk > 0 then Size pk else MinRSAKeySize)
         in as_Signer RSAPrivateKey (GenerateRSAPrivateKey lib rand_Reader keySize))
      else if Algorithm pk = ECDSAKeyAlgorithm then
        (let keySize = (if Size pk > 0 then Size pk else ECCurve256)
         in as_Signer ECDSAPrivateKey (GenerateECPrivateKey lib rand_Reader keySize))
      else if Algorithm pk = Ed25519KeyAlgorithm then
        as_Signer Ed25519PrivateKey (GenerateEd25519PrivateKey lib rand_Reader)
      else Inl (UnsupportedAlgorithm (Algorithm pk)))"

text \<open>
  The function returns the store it leaves and, when it returns, its result; \<open>None\<close> is
  the panic of reading \<^verbatim>\<open>crt.Spec\<close> through a nil pointer (the copy of nil is nil).
\<close>

definition GeneratePrivateKeyForCertificate ::
  "'r crypto \<Rightarrow> 'r \<Rightarrow> heap \<Rightarrow> ptr \<Rightarrow> heap \<times> (error + PrivateKey) option" where
  "GeneratePrivateKeyForCertificate lib rand_Reader h crt0 =
     (let (h1, crt) = DeepCopy h crt0
      in case crt of
           None \<Rightarrow> (h1, None)
         | Some a \<Rightarrow>
             (let c = certs h1 ! a;
                  h2 = (if Spec_PrivateKey c = None then
                          (let (h', q) = new_pkey h1 zero_CertificatePrivateKey
                           in h'\<lparr>certs := (certs h')[a := c\<lparr>Spec_PrivateKey := q\<rparr>]\<rparr>)
                        else h1)
              in case deref (pkeys h2) (Spec_PrivateKey (certs h2 ! a)) of
                   None \<Rightarrow> (h2, None)
                 | Some pk \<Rightarrow> (h2, Some (switch_Algorithm lib rand_Reader pk))))"

subsection \<open>Encoding (generate.go, lines 125-175)\<close>

definition EncodePKCS1PrivateKey :: "'r crypto \<Rightarrow> rsa_PrivateKey \<Rightarrow> byte list" where
  "EncodePKCS1PrivateKey lib pk =
     (let block = \<lparr>pem_Type = ''RSA PRIVATE KEY'',
                   pem_Bytes = x509_MarshalPKCS1PrivateKey lib pk\<rparr>
      in pem_EncodeToMemory lib block)"

definition EncodePKCS8PrivateKey :: "'r crypto \<Rightarrow> PrivateKey \<Rightarrow> error + byte list" where
  "EncodePKCS8PrivateKey lib pk =
     (case x509_MarshalPKCS8PrivateKey lib pk of
        Inl err \<Rightarrow> Inl err
      | Inr keyBytes \<Rightarrow>
          (let block = \<lparr>pem_Type = ''PRIVATE KEY'', pem_Bytes = keyBytes\<rparr>
           in Inr (pem_EncodeToMemory lib block)))"

definition EncodeECPrivateKey :: "'r crypto \<Rightarrow> ecdsa_PrivateKey \<Rightarrow> error + byte list" where
  "EncodeECPrivateKey lib pk =
     (case x509_MarshalECPrivateKey lib pk of
        Inl err \<Rightarrow> Inl (ECEncodingError (Error err))
      | Inr asnBytes \<Rightarrow>
          (let block = \<lparr>pem_Type = ''EC PRIVATE KEY'', pem_Bytes = asnBytes\<rparr>
           in Inr (pem_EncodeToMemory lib block)))"

text \<open>The name that \<^verbatim>\<open>%T\<close> prints for a private key.\<close>

fun PrivateKey_type :: "PrivateKey \<Rightarrow> string" where
  "PrivateKey_type (RSAPrivateKey _) = ''*rsa.PrivateKey''"
| "PrivateKey_type (ECDSAPrivateKey _) = ''*ecdsa.PrivateKey''"
| "PrivateKey_type (Ed25519PrivateKey _) = ''ed25519.PrivateKey''"
| "PrivateKey_type (OtherPrivateKey t) = t"

definition EncodePrivateKey :: "'r crypto \<Rightarrow> PrivateKey \<Rightarrow> string \<Rightarrow> error + byte list" where
  "EncodePrivateKey lib pk keyEncoding =
     (if keyEncoding = [] \<or> keyEncoding = PKCS1 then
        (case pk of
           RSAPrivateKey k \<Rightarrow> Inr (EncodePKCS1PrivateKey lib k)
         | ECDSAPrivateKey k \<Rightarrow> EncodeECPrivateKey lib k
         | Ed25519PrivateKey k \<Rightarrow> EncodePKCS8PrivateKey lib (Ed25519PrivateKey k)
         | OtherPrivateKey t \<Rightarrow> Inl (UnknownKeyType (PrivateKey_type pk)))
      else if keyEncoding = PKCS8 then EncodePKCS8PrivateKey lib pk
      else Inl (UnknownEncoding keyEncoding))"

subsection \<open>Comparison of public keys (generate.go, lines 210-225)\<close>

text \<open>The name that \<^verbatim>\<open>%T\<close> prints for a public key.\<close>

fun PublicKey_type :: "PublicKey \<Rightarrow> string" where
  "PublicKey_type (RSAPublicKey _) = ''*rsa.PublicKey''"
| "PublicKey_type (ECDSAPublicKey _) = ''*ecdsa.PublicKey''"
| "PublicKey_type (Ed25519PublicKey _) = ''ed25519.PublicKey''"
| "PublicKey_type (OtherPublicKey t) = t"

definition PublicKeysEqual :: "'r crypto \<Rightarrow> PublicKey \<Rightarrow> PublicKey \<Rightarrow> error + bool" where
  "PublicKeysEqual lib a b =
     (case a of
        RSAPublicKey pub \<Rightarrow> Inr (rsa_PublicKey_Equal lib pub b)
      | ECDSAPublicKey pub \<Rightarrow> Inr (ecdsa_PublicKey_Equal lib pub b)
      | Ed25519PublicKey pub \<Rightarrow> Inr (ed25519_PublicKey_Equal lib pub b)
      | OtherPublicKey t \<Rightarrow> Inl (UnrecognisedKeyType (PublicKey_type a)))"

subsection \<open>A library to evaluate with\<close>

text \<open>
  A deterministic stand-in for the standard library, on which the theorems are run at
  concrete inputs. The random source is a number, and 0 is a source that fails. An RSA
  key of the requested size has the smallest modulus of that bit length; the DER
  encodings are one tag byte and the PEM armour is the label before the bytes. Keys
  are equal as the spec says: RSA keys when modulus and public exponent are, ECDSA
  keys when curve and point are, Ed25519 keys when the encoded values are, and no key
  equals a key of another type.
\<close>

definition sample_crypto :: "nat crypto" where
  "sample_crypto =
     \<lparr>rsa_GenerateKey = (\<lambda>r bits.
        if r = 0 then Inl (LibraryError ''EOF'')
        else Inr \<lparr>rsa_N = 2 ^ nat (bits - 1), rsa_E = 65537, rsa_D = int r, rsa_Primes = []\<rparr>),
      ecdsa_GenerateKey = (\<lambda>c r.
        if r = 0 then Inl (LibraryError ''EOF'')
        else Inr \<lparr>ecdsa_Curve = c, ecdsa_X = int r, ecdsa_Y = 1, ecdsa_D = int r\<rparr>),
      ed25519_GenerateKey = (\<lambda>r.
        if r = 0 then Inl (LibraryError ''EOF'') else Inr ([of_nat r], [of_nat r, of_nat r])),
      x509_MarshalPKCS1PrivateKey = (\<lambda>k. [0x30]),
      x509_MarshalPKCS8PrivateKey = (\<lambda>k.
        case k of
          OtherPrivateKey t \<Rightarrow> Inl (LibraryError (''x509: unknown key type: '' @ t))
        | _ \<Rightarrow> Inr [0x30, 0x08]),
      x509_MarshalECPrivateKey = (\<lambda>k. Inr [0x30, 0x0E]),
      pem_EncodeToMemory = (\<lambda>b. map of_char (pem_Type b) @ pem_Bytes b),
      rsa_PublicKey_Equal = (\<lambda>pub x.
        case x of
          RSAPublicKey xx \<Rightarrow> rsa_N pub = rsa_N xx \<and> rsa_E pub = rsa_E xx
        | _ \<Rightarrow> False),
      ecdsa_PublicKey_Equal = (\<lambda>pub x.
        case x of
          ECDSAPublicKey xx \<Rightarrow>
            ecdsa_X pub = ecdsa_X xx \<and> ecdsa_Y pub = ecdsa_Y xx \<and>
            ecdsa_Curve pub = ecdsa_Curve xx
        | _ \<Rightarrow> False),
      ed25519_PublicKey_Equal = (\<lambda>pub x.
        case x of
          Ed25519PublicKey xx \<Rightarrow> pub = xx
        | _ \<Rightarrow> False)\<rparr>"

subsection \<open>A store to evaluate with\<close>

text \<open>
  Six certificates: one without a private-key section, and five whose sections select
  ECDSA, nothing, an algorithm that does not exist, RSA with a negative size, and
  Ed25519 with a size.
\<close>

definition sample_heap :: heap where
  "sample_heap =
     \<lparr>certs = [\<lparr>Name = ''web'', Spec_PrivateKey = None\<rparr>,
               \<lparr>Name = ''api'', Spec_PrivateKey = Some 0\<rparr>,
               \<lparr>Name = ''db'', Spec_PrivateKey = Some 1\<rparr>,
               \<lparr>Name = ''dsa'', Spec_PrivateKey = Some 2\<rparr>,
               \<lparr>Name = ''neg'', Spec_PrivateKey = Some 3\<rparr>,
               \<lparr>Name = ''ed'', Spec_PrivateKey = Some 4\<rparr>],
      pkeys = [\<lparr>RotationPolicy = [], Encoding = [], Algorithm = ''ECDSA'', Size = 0\<rparr>,
               \<lparr>RotationPolicy = [], Encoding = [], Algorithm = [], Size = 0\<rparr>,
               \<lparr>RotationPolicy = [], Encoding = [], Algorithm = ''DSA'', Size = 2048\<rparr>,
               \<lparr>RotationPolicy = [], Encoding = [], Algorithm = ''RSA'', Size = - 1\<rparr>,
               \<lparr>RotationPolicy = [], Encoding = [], Algorithm = ''Ed25519'', Size = 9\<rparr>]\<rparr>"

section \<open>Properties\<close>

subsection \<open>Bit lengths\<close>

lemma bitlen_nat_pow2: "bitlen_nat (2 ^ n) = Suc n"
proof (induction n)
  case 0
  show ?case by (simp add: bitlen_nat.simps [of "Suc 0"] bitlen_nat.simps [of 0])
next
  case (Suc n)
  have "bitlen_nat (2 ^ Suc n) = Suc (bitlen_nat (2 ^ Suc n div 2))"
    by (subst bitlen_nat.simps) simp
  with Suc show ?case by simp
qed

lemma BitLen_pow2: "BitLen (2 ^ n) = int n + 1"
proof -
  have "nat \<bar>2 ^ n :: int\<bar> = 2 ^ n"
    by (simp add: nat_power_eq)
  then show ?thesis
    unfolding BitLen_def by (simp only: bitlen_nat_pow2 of_nat_Suc)
qed

subsection \<open>The library to evaluate with, field by field\<close>

lemma sample_crypto_sel:
  "rsa_GenerateKey sample_crypto r bits =
     (if r = 0 then Inl (LibraryError ''EOF'')
      else Inr \<lparr>rsa_N = 2 ^ nat (bits - 1), rsa_E = 65537, rsa_D = int r, rsa_Primes = []\<rparr>)"
  "ecdsa_GenerateKey sample_crypto c r =
     (if r = 0 then Inl (LibraryError ''EOF'')
      else Inr \<lparr>ecdsa_Curve = c, ecdsa_X = int r, ecdsa_Y = 1, ecdsa_D = int r\<rparr>)"
  "ed25519_GenerateKey sample_crypto r =
     (if r = 0 then Inl (LibraryError ''EOF'') else Inr ([of_nat r], [of_nat r, of_nat r]))"
  "x509_MarshalPKCS1PrivateKey sample_crypto k = [0x30]"
  "x509_MarshalPKCS8PrivateKey sample_crypto pk =
     (case pk of
        OtherPrivateKey t \<Rightarrow> Inl (LibraryError (''x509: unknown key type: '' @ t))
      | _ \<Rightarrow> Inr [0x30, 0x08])"
  "x509_MarshalECPrivateKey sample_crypto e = Inr [0x30, 0x0E]"
  "pem_EncodeToMemory sample_crypto b = map of_char (pem_Type b) @ pem_Bytes b"
  "rsa_PublicKey_Equal sample_crypto rpub x =
     (case x of
        RSAPublicKey xx \<Rightarrow> rsa_N rpub = rsa_N xx \<and> rsa_E rpub = rsa_E xx
      | _ \<Rightarrow> False)"
  "ecdsa_PublicKey_Equal sample_crypto epub x =
     (case x of
        ECDSAPublicKey xx \<Rightarrow>
          ecdsa_X epub = ecdsa_X xx \<and> ecdsa_Y epub = ecdsa_Y xx \<and>
          ecdsa_Curve epub = ecdsa_Curve xx
      | _ \<Rightarrow> False)"
  "ed25519_PublicKey_Equal sample_crypto dpub x =
     (case x of
        Ed25519PublicKey xx \<Rightarrow> dpub = xx
      | _ \<Rightarrow> False)"
  by (simp_all add: sample_crypto_def)

lemma sample_heap_deref:
  "deref (certs sample_heap) (Some 0) = Some \<lparr>Name = ''web'', Spec_PrivateKey = None\<rparr>"
  "deref (certs sample_heap) (Some 1) = Some \<lparr>Name = ''api'', Spec_PrivateKey = Some 0\<rparr>"
  "deref (certs sample_heap) (Some 2) = Some \<lparr>Name = ''db'', Spec_PrivateKey = Some 1\<rparr>"
  "deref (certs sample_heap) (Some 3) = Some \<lparr>Name = ''dsa'', Spec_PrivateKey = Some 2\<rparr>"
  "deref (certs sample_heap) (Some 4) = Some \<lparr>Name = ''neg'', Spec_PrivateKey = Some 3\<rparr>"
  "deref (certs sample_heap) (Some 5) = Some \<lparr>Name = ''ed'', Spec_PrivateKey = Some 4\<rparr>"
  by (simp_all add: sample_heap_def deref_def)

subsection \<open>The selector constants differ\<close>

lemma selector_distinct:
  "RSAKeyAlgorithm \<noteq> []" "ECDSAKeyAlgorithm \<noteq> []" "Ed25519KeyAlgorithm \<noteq> []"
  "ECDSAKeyAlgorithm \<noteq> RSAKeyAlgorithm" "Ed25519KeyAlgorithm \<noteq> RSAKeyAlgorithm"
  "Ed25519KeyAlgorithm \<noteq> ECDSAKeyAlgorithm"
  by (simp_all add: RSAKeyAlgorithm_def ECDSAKeyAlgorithm_def Ed25519KeyAlgorithm_def)

lemma encoding_distinct: "PKCS1 \<noteq> []" "PKCS8 \<noteq> []" "PKCS8 \<noteq> PKCS1"
  by (simp_all add: PKCS1_def PKCS8_def)

subsection \<open>The defaults are sizes the generators take\<close>

lemma in_range_RSA:
  "GenerateRSAPrivateKey lib rnd 2048 = rsa_GenerateKey lib rnd 2048"
  by (simp add: GenerateRSAPrivateKey_def MinRSAKeySize_def MaxRSAKeySize_def)

lemma P256_EC:
  "GenerateECPrivateKey lib rnd 256 = ecdsa_GenerateKey lib P256 rnd"
  by (simp add: GenerateECPrivateKey_def ECCurve256_def)

subsection \<open>What a call for a certificate does to the store\<close>

lemma DeepCopy_Some:
  assumes "deref (certs h) crt = Some c"
  shows "DeepCopy h crt =
    (case deref (pkeys h) (Spec_PrivateKey c) of
       None \<Rightarrow> (h\<lparr>certs := certs h @ [c\<lparr>Spec_PrivateKey := None\<rparr>]\<rparr>, Some (length (certs h)))
     | Some pk \<Rightarrow>
         (h\<lparr>pkeys := pkeys h @ [pk],
            certs := certs h @ [c\<lparr>Spec_PrivateKey := Some (length (pkeys h))\<rparr>]\<rparr>,
          Some (length (certs h))))"
  using assms by (simp add: DeepCopy_def new_cert_def new_pkey_def split: option.split)

lemma DeepCopy_None:
  assumes "deref (certs h) crt = None"
  shows "DeepCopy h crt = (h, None)"
  using assms by (simp add: DeepCopy_def)

text \<open>
  On a certificate that exists, the call appends the copy of the section (or the zero
  value, when the certificate has none) and the copy of the certificate, which points
  to it, and runs the switch on that section.
\<close>

lemma GeneratePrivateKeyForCertificate_Some:
  assumes "deref (certs h) crt = Some c"
  shows "GeneratePrivateKeyForCertificate lib rnd h crt =
    (case deref (pkeys h) (Spec_PrivateKey c) of
       None \<Rightarrow>
         (h\<lparr>pkeys := pkeys h @ [zero_CertificatePrivateKey],
            certs := certs h @ [c\<lparr>Spec_PrivateKey := Some (length (pkeys h))\<rparr>]\<rparr>,
          Some (switch_Algorithm lib rnd zero_CertificatePrivateKey))
     | Some pk \<Rightarrow>
         (h\<lparr>pkeys := pkeys h @ [pk],
            certs := certs h @ [c\<lparr>Spec_PrivateKey := Some (length (pkeys h))\<rparr>]\<rparr>,
          Some (switch_Algorithm lib rnd pk)))"
  unfolding GeneratePrivateKeyForCertificate_def DeepCopy_Some [OF assms]
  by (simp add: new_pkey_def deref_def Let_def split: option.split)

lemma GeneratePrivateKeyForCertificate_None:
  assumes "deref (certs h) crt = None"
  shows "GeneratePrivateKeyForCertificate lib rnd h crt = (h, None)"
  unfolding GeneratePrivateKeyForCertificate_def DeepCopy_None [OF assms] by simp

subsection \<open>RSA key sizes\<close>

text \<open>
  C1. For every size \<open>s\<close> below 2048, \<open>GenerateRSAPrivateKey\<close> returns the weak-key error
  and no key; for every size above 8192 it returns the error of an excessive key size
  and no key. The library's generator is not consulted: the result is the same for
  every library and every random source.
\<close>

theorem GenerateRSAPrivateKey_rejects:
  "(s < 2048 \<longrightarrow> GenerateRSAPrivateKey lib rnd s = Inl (WeakKey s 2048)) \<and>
   (s > 8192 \<longrightarrow> GenerateRSAPrivateKey lib rnd s = Inl (ExcessiveKeySize s 8192))"
  by (simp add: GenerateRSAPrivateKey_def MinRSAKeySize_def MaxRSAKeySize_def)

theorem GenerateRSAPrivateKey_rejects_witness:
  "GenerateRSAPrivateKey sample_crypto 1 2047 = Inl (WeakKey 2047 2048) \<and>
   GenerateRSAPrivateKey sample_crypto 1 8193 = Inl (ExcessiveKeySize 8193 8192) \<and>
   GenerateRSAPrivateKey sample_crypto 1 (- 1) = Inl (WeakKey (- 1) 2048) \<and>
   Error (WeakKey 2047 2048) = ''weak rsa key size specified: 2047. minimum key size: 2048''"
  using GenerateRSAPrivateKey_rejects [of 2047 sample_crypto 1]
    GenerateRSAPrivateKey_rejects [of 8193 sample_crypto 1]
    GenerateRSAPrivateKey_rejects [of "- 1" sample_crypto 1]
  by (simp add: fmt_d_def fmt_nat.simps)

text \<open>
  C2. For every size \<open>s\<close> from 2048 to 8192, \<open>GenerateRSAPrivateKey\<close> adds no failure
  of its own: it returns what the library's generator returns for \<open>s\<close> bits, so it
  fails only where the random source makes the generator fail. The hypothesis is the
  contract of \<^verbatim>\<open>rsa.GenerateKey\<close>, that a key generated for \<open>s\<close> bits has a modulus of
  bit length \<open>s\<close>; with it, the modulus of the key returned has bit length exactly \<open>s\<close>.
\<close>

theorem GenerateRSAPrivateKey_accepts:
  assumes "2048 \<le> s" and "s \<le> 8192"
    and "\<forall>k. rsa_GenerateKey lib rnd s = Inr k \<longrightarrow> BitLen (rsa_N k) = s"
  shows "GenerateRSAPrivateKey lib rnd s = rsa_GenerateKey lib rnd s \<and>
    (\<forall>k. GenerateRSAPrivateKey lib rnd s = Inr k \<longrightarrow> BitLen (rsa_N k) = s)"
  using assms by (simp add: GenerateRSAPrivateKey_def MinRSAKeySize_def MaxRSAKeySize_def)

theorem GenerateRSAPrivateKey_accepts_witness:
  "GenerateRSAPrivateKey sample_crypto 7 2048 =
     Inr \<lparr>rsa_N = 2 ^ 2047, rsa_E = 65537, rsa_D = 7, rsa_Primes = []\<rparr> \<and>
   BitLen (2 ^ 2047) = 2048 \<and>
   GenerateRSAPrivateKey sample_crypto 0 2048 = Inl (LibraryError ''EOF'')"
proof -
  let ?k = "\<lparr>rsa_N = 2 ^ 2047, rsa_E = 65537, rsa_D = 7, rsa_Primes = []\<rparr>"
  have len: "BitLen (2 ^ 2047) = 2048"
    using BitLen_pow2 [of 2047] by simp
  have gen: "rsa_GenerateKey sample_crypto 7 2048 = Inr ?k"
    by (simp add: sample_crypto_sel)
  have bad: "rsa_GenerateKey sample_crypto 0 2048 = Inl (LibraryError ''EOF'')"
    by (simp add: sample_crypto_sel)
  have c7: "\<forall>k. rsa_GenerateKey sample_crypto 7 2048 = Inr k \<longrightarrow> BitLen (rsa_N k) = 2048"
    unfolding gen using len by auto
  have c0: "\<forall>k. rsa_GenerateKey sample_crypto 0 2048 = Inr k \<longrightarrow> BitLen (rsa_N k) = 2048"
    unfolding bad by simp
  have "GenerateRSAPrivateKey sample_crypto 7 2048 = rsa_GenerateKey sample_crypto 7 2048"
    using GenerateRSAPrivateKey_accepts [OF _ _ c7] by simp
  moreover
  have "GenerateRSAPrivateKey sample_crypto 0 2048 = rsa_GenerateKey sample_crypto 0 2048"
    using GenerateRSAPrivateKey_accepts [OF _ _ c0] by simp
  ultimately show ?thesis
    unfolding gen bad using len by simp
qed

subsection \<open>ECDSA curves\<close>

text \<open>
  C3. For every size \<open>s\<close>, \<open>GenerateECPrivateKey\<close> asks the library for a key on P-256
  when \<open>s = 256\<close>, on P-384 when \<open>s = 384\<close>, on P-521 when \<open>s = 521\<close>, and returns what
  the library returns; for every other \<open>s\<close> it fails with the error of an unsupported
  curve size. The hypothesis is the contract of \<^verbatim>\<open>ecdsa.GenerateKey\<close>, that a key it
  returns is on the curve it was given; with it, a key that \<open>GenerateECPrivateKey\<close>
  returns is on the curve of its size, and on no curve but these three.
\<close>

theorem GenerateECPrivateKey_curves:
  assumes "\<forall>c k. ecdsa_GenerateKey lib c rnd = Inr k \<longrightarrow> ecdsa_Curve k = c"
  shows "(s = 256 \<longrightarrow> GenerateECPrivateKey lib rnd s = ecdsa_GenerateKey lib P256 rnd) \<and>
    (s = 384 \<longrightarrow> GenerateECPrivateKey lib rnd s = ecdsa_GenerateKey lib P384 rnd) \<and>
    (s = 521 \<longrightarrow> GenerateECPrivateKey lib rnd s = ecdsa_GenerateKey lib P521 rnd) \<and>
    (s \<noteq> 256 \<and> s \<noteq> 384 \<and> s \<noteq> 521 \<longrightarrow>
       GenerateECPrivateKey lib rnd s = Inl (UnsupportedCurveSize s)) \<and>
    (\<forall>k. GenerateECPrivateKey lib rnd s = Inr k \<longrightarrow>
       (s = 256 \<and> ecdsa_Curve k = P256) \<or> (s = 384 \<and> ecdsa_Curve k = P384) \<or>
       (s = 521 \<and> ecdsa_Curve k = P521))"
  using assms
  by (simp add: GenerateECPrivateKey_def ECCurve256_def ECCurve384_def ECCurve521_def)

theorem GenerateECPrivateKey_curves_witness:
  "GenerateECPrivateKey sample_crypto 3 256 =
     Inr \<lparr>ecdsa_Curve = P256, ecdsa_X = 3, ecdsa_Y = 1, ecdsa_D = 3\<rparr> \<and>
   GenerateECPrivateKey sample_crypto 3 384 =
     Inr \<lparr>ecdsa_Curve = P384, ecdsa_X = 3, ecdsa_Y = 1, ecdsa_D = 3\<rparr> \<and>
   GenerateECPrivateKey sample_crypto 3 521 =
     Inr \<lparr>ecdsa_Curve = P521, ecdsa_X = 3, ecdsa_Y = 1, ecdsa_D = 3\<rparr> \<and>
   GenerateECPrivateKey sample_crypto 3 224 = Inl (UnsupportedCurveSize 224) \<and>
   GenerateECPrivateKey sample_crypto 3 0 = Inl (UnsupportedCurveSize 0) \<and>
   Error (UnsupportedCurveSize 224) = ''unsupported ecdsa key size specified: 224''"
proof -
  have lib: "\<forall>c k. ecdsa_GenerateKey sample_crypto c 3 = Inr k \<longrightarrow> ecdsa_Curve k = c"
    by (auto simp add: sample_crypto_sel)
  note ec = GenerateECPrivateKey_curves [OF lib]
  have "GenerateECPrivateKey sample_crypto 3 256 = ecdsa_GenerateKey sample_crypto P256 3"
    using ec [of 256] by simp
  moreover have "GenerateECPrivateKey sample_crypto 3 384 = ecdsa_GenerateKey sample_crypto P384 3"
    using ec [of 384] by simp
  moreover have "GenerateECPrivateKey sample_crypto 3 521 = ecdsa_GenerateKey sample_crypto P521 3"
    using ec [of 521] by simp
  moreover have "GenerateECPrivateKey sample_crypto 3 224 = Inl (UnsupportedCurveSize 224)"
    using ec [of 224] by simp
  moreover have "GenerateECPrivateKey sample_crypto 3 0 = Inl (UnsupportedCurveSize 0)"
    using ec [of 0] by simp
  moreover have "fmt_d 224 = ''224''"
    by (simp add: fmt_d_def fmt_nat.simps)
  ultimately show ?thesis
    by (simp add: sample_crypto_sel)
qed

subsection \<open>Defaults of the key for a certificate\<close>

text \<open>
  C4. For a certificate that has no private-key section, or whose section has the
  empty algorithm, \<open>GeneratePrivateKeyForCertificate\<close> generates an RSA key: of the
  size of the section when that is positive, of 2048 bits when the section is absent
  or its size is zero. With the algorithm RSA and size zero it also uses 2048 bits,
  with ECDSA and size zero the curve P-256, and with Ed25519 it calls the Ed25519
  generator whatever the size is.
\<close>

theorem GeneratePrivateKeyForCertificate_defaults:
  assumes "deref (certs h) crt = Some c"
    and "r = snd (GeneratePrivateKeyForCertificate lib rnd h crt)"
  shows "(Spec_PrivateKey c = None \<longrightarrow>
       r = Some (as_Signer RSAPrivateKey (rsa_GenerateKey lib rnd 2048))) \<and>
    (\<forall>pk. deref (pkeys h) (Spec_PrivateKey c) = Some pk \<longrightarrow>
       (Algorithm pk = [] \<longrightarrow>
          r = Some (as_Signer RSAPrivateKey
                (GenerateRSAPrivateKey lib rnd (if 0 < Size pk then Size pk else 2048)))) \<and>
       (Algorithm pk = [] \<and> Size pk = 0 \<longrightarrow>
          r = Some (as_Signer RSAPrivateKey (rsa_GenerateKey lib rnd 2048))) \<and>
       (Algorithm pk = RSAKeyAlgorithm \<and> Size pk = 0 \<longrightarrow>
          r = Some (as_Signer RSAPrivateKey (rsa_GenerateKey lib rnd 2048))) \<and>
       (Algorithm pk = ECDSAKeyAlgorithm \<and> Size pk = 0 \<longrightarrow>
          r = Some (as_Signer ECDSAPrivateKey (ecdsa_GenerateKey lib P256 rnd))) \<and>
       (Algorithm pk = Ed25519KeyAlgorithm \<longrightarrow>
          r = Some (as_Signer Ed25519PrivateKey (GenerateEd25519PrivateKey lib rnd))))"
  unfolding assms(2) GeneratePrivateKeyForCertificate_Some [OF assms(1)]
  by (auto simp add: switch_Algorithm_def zero_CertificatePrivateKey_def deref_def
      selector_distinct in_range_RSA P256_EC MinRSAKeySize_def ECCurve256_def)

theorem GeneratePrivateKeyForCertificate_defaults_witness:
  "snd (GeneratePrivateKeyForCertificate sample_crypto 7 sample_heap (Some 0)) =
     Some (Inr (RSAPrivateKey \<lparr>rsa_N = 2 ^ 2047, rsa_E = 65537, rsa_D = 7, rsa_Primes = []\<rparr>)) \<and>
   snd (GeneratePrivateKeyForCertificate sample_crypto 7 sample_heap (Some 2)) =
     Some (Inr (RSAPrivateKey \<lparr>rsa_N = 2 ^ 2047, rsa_E = 65537, rsa_D = 7, rsa_Primes = []\<rparr>)) \<and>
   snd (GeneratePrivateKeyForCertificate sample_crypto 7 sample_heap (Some 1)) =
     Some (Inr (ECDSAPrivateKey \<lparr>ecdsa_Curve = P256, ecdsa_X = 7, ecdsa_Y = 1, ecdsa_D = 7\<rparr>)) \<and>
   snd (GeneratePrivateKeyForCertificate sample_crypto 7 sample_heap (Some 5)) =
     Some (Inr (Ed25519PrivateKey [7, 7]))"
proof -
  note d = GeneratePrivateKeyForCertificate_defaults
    [where lib = sample_crypto and rnd = 7, OF _ refl]
  have "snd (GeneratePrivateKeyForCertificate sample_crypto 7 sample_heap (Some 0)) =
      Some (as_Signer RSAPrivateKey (rsa_GenerateKey sample_crypto 7 2048))"
    using d [OF sample_heap_deref(1)] by simp
  moreover
  have "snd (GeneratePrivateKeyForCertificate sample_crypto 7 sample_heap (Some 2)) =
      Some (as_Signer RSAPrivateKey (rsa_GenerateKey sample_crypto 7 2048))"
    using d [OF sample_heap_deref(3)] by (simp add: sample_heap_def deref_def in_range_RSA)
  moreover
  have "snd (GeneratePrivateKeyForCertificate sample_crypto 7 sample_heap (Some 1)) =
      Some (as_Signer ECDSAPrivateKey (ecdsa_GenerateKey sample_crypto P256 7))"
    using d [OF sample_heap_deref(2)]
    by (simp add: sample_heap_def deref_def ECDSAKeyAlgorithm_def)
  moreover
  have "snd (GeneratePrivateKeyForCertificate sample_crypto 7 sample_heap (Some 5)) =
      Some (as_Signer Ed25519PrivateKey (GenerateEd25519PrivateKey sample_crypto 7))"
    using d [OF sample_heap_deref(6)]
    by (simp add: sample_heap_def deref_def Ed25519KeyAlgorithm_def)
  ultimately show ?thesis
    by (simp add: as_Signer_def GenerateEd25519PrivateKey_def sample_crypto_sel)
qed

subsection \<open>Algorithms that are not supported\<close>

text \<open>
  C5. For a certificate whose section has an algorithm that is neither empty nor RSA,
  ECDSA or Ed25519, \<open>GeneratePrivateKeyForCertificate\<close> returns no key but the error
  of an unsupported algorithm, and the message of the error ends with the algorithm
  as the section gives it.
\<close>

theorem GeneratePrivateKeyForCertificate_unsupported:
  assumes "deref (certs h) crt = Some c"
    and "deref (pkeys h) (Spec_PrivateKey c) = Some pk"
    and "Algorithm pk \<noteq> []" and "Algorithm pk \<noteq> RSAKeyAlgorithm"
    and "Algorithm pk \<noteq> ECDSAKeyAlgorithm" and "Algorithm pk \<noteq> Ed25519KeyAlgorithm"
  shows "snd (GeneratePrivateKeyForCertificate lib rnd h crt) =
      Some (Inl (UnsupportedAlgorithm (Algorithm pk))) \<and>
    Error (UnsupportedAlgorithm (Algorithm pk)) =
      ''unsupported private key algorithm specified: '' @ Algorithm pk"
  unfolding GeneratePrivateKeyForCertificate_Some [OF assms(1)]
  using assms(2-) by (simp add: switch_Algorithm_def)

theorem GeneratePrivateKeyForCertificate_unsupported_witness:
  "snd (GeneratePrivateKeyForCertificate sample_crypto 7 sample_heap (Some 3)) =
     Some (Inl (UnsupportedAlgorithm ''DSA'')) \<and>
   Error (UnsupportedAlgorithm ''DSA'') = ''unsupported private key algorithm specified: DSA''"
  using GeneratePrivateKeyForCertificate_unsupported
    [where lib = sample_crypto and rnd = 7, OF sample_heap_deref(4)]
  by (simp add: sample_heap_def deref_def RSAKeyAlgorithm_def ECDSAKeyAlgorithm_def
      Ed25519KeyAlgorithm_def)

subsection \<open>Ed25519 keys in the legacy format\<close>

text \<open>
  C6. For every Ed25519 private key, a slice of \<^verbatim>\<open>ed25519.PrivateKeySize\<close> bytes, and the
  format PKCS1 or the empty format, \<open>EncodePrivateKey\<close> is \<open>EncodePKCS8PrivateKey\<close>, so
  its result is the one of the format PKCS8: where the library marshals the key to
  PKCS#8 bytes, the result is the PEM block of type PRIVATE KEY around these bytes, and
  it fails only with the error of the library's marshalling, never for the type of the
  key. A slice of another length is no key: the library reads its first 32 bytes as
  the seed and panics on a shorter one, which the library's field, a total function,
  does not show; the length is therefore a hypothesis.
\<close>

theorem EncodePrivateKey_Ed25519_legacy:
  assumes "f = [] \<or> f = PKCS1"
    and "length k = ed25519_PrivateKeySize"
  shows "EncodePrivateKey lib (Ed25519PrivateKey k) f =
      EncodePKCS8PrivateKey lib (Ed25519PrivateKey k) \<and>
    EncodePrivateKey lib (Ed25519PrivateKey k) f =
      EncodePrivateKey lib (Ed25519PrivateKey k) PKCS8 \<and>
    (\<forall>der. x509_MarshalPKCS8PrivateKey lib (Ed25519PrivateKey k) = Inr der \<longrightarrow>
       EncodePrivateKey lib (Ed25519PrivateKey k) f =
         Inr (pem_EncodeToMemory lib \<lparr>pem_Type = ''PRIVATE KEY'', pem_Bytes = der\<rparr>)) \<and>
    (\<forall>err. x509_MarshalPKCS8PrivateKey lib (Ed25519PrivateKey k) = Inl err \<longrightarrow>
       EncodePrivateKey lib (Ed25519PrivateKey k) f = Inl err)"
  using assms(1)
  by (auto simp add: EncodePrivateKey_def EncodePKCS8PrivateKey_def encoding_distinct)

theorem EncodePrivateKey_Ed25519_legacy_witness:
  "length (replicate 32 (7 :: byte) @ replicate 32 9) = 64 \<and>
   EncodePrivateKey sample_crypto (Ed25519PrivateKey (replicate 32 7 @ replicate 32 9)) PKCS1 =
     Inr (map of_char ''PRIVATE KEY'' @ [0x30, 0x08]) \<and>
   EncodePrivateKey sample_crypto (Ed25519PrivateKey (replicate 32 7 @ replicate 32 9)) [] =
     Inr (map of_char ''PRIVATE KEY'' @ [0x30, 0x08]) \<and>
   EncodePrivateKey sample_crypto (Ed25519PrivateKey (replicate 32 7 @ replicate 32 9)) PKCS8 =
     Inr (map of_char ''PRIVATE KEY'' @ [0x30, 0x08])"
proof -
  let ?k = "replicate 32 (7 :: byte) @ replicate 32 9"
  have len: "length ?k = ed25519_PrivateKeySize"
    by (simp add: ed25519_PrivateKeySize_def)
  have m: "x509_MarshalPKCS8PrivateKey sample_crypto (Ed25519PrivateKey ?k) = Inr [0x30, 0x08]"
    by (simp add: sample_crypto_sel)
  note enc = EncodePrivateKey_Ed25519_legacy [where lib = sample_crypto, OF _ len]
  have "EncodePrivateKey sample_crypto (Ed25519PrivateKey ?k) PKCS1 =
      Inr (pem_EncodeToMemory sample_crypto
        \<lparr>pem_Type = ''PRIVATE KEY'', pem_Bytes = [0x30, 0x08]\<rparr>)"
    using enc [of PKCS1] m by blast
  moreover
  have "EncodePrivateKey sample_crypto (Ed25519PrivateKey ?k) [] =
      Inr (pem_EncodeToMemory sample_crypto
        \<lparr>pem_Type = ''PRIVATE KEY'', pem_Bytes = [0x30, 0x08]\<rparr>)"
    using enc [of "[]"] m by blast
  moreover
  have "EncodePrivateKey sample_crypto (Ed25519PrivateKey ?k) PKCS8 =
      EncodePrivateKey sample_crypto (Ed25519PrivateKey ?k) []"
    using enc [of "[]"] by metis
  moreover have "length ?k = 64"
    by simp
  ultimately show ?thesis
    by (simp add: sample_crypto_sel)
qed

subsection \<open>Comparison looks at the type of the first key only\<close>

text \<open>
  C7. When the first key of \<open>PublicKeysEqual\<close> is an RSA, ECDSA or Ed25519 public key,
  the result is the truth value of the library's method \<^verbatim>\<open>Equal\<close> of that key and
  never an error, whatever the second key is. The hypotheses are the contract of these
  methods, that a key equals no key of another type; with them the result is false
  when the second key is of another type. When the first key is of any other type, the
  result is the error of an unrecognised key type, whose message ends with the name of
  that type, whatever the second key is.
\<close>

theorem PublicKeysEqual_first_argument:
  assumes "\<forall>pub x. (\<forall>xx. x \<noteq> RSAPublicKey xx) \<longrightarrow> \<not> rsa_PublicKey_Equal lib pub x"
    and "\<forall>pub x. (\<forall>xx. x \<noteq> ECDSAPublicKey xx) \<longrightarrow> \<not> ecdsa_PublicKey_Equal lib pub x"
    and "\<forall>pub x. (\<forall>xx. x \<noteq> Ed25519PublicKey xx) \<longrightarrow> \<not> ed25519_PublicKey_Equal lib pub x"
  shows "(a = RSAPublicKey p \<longrightarrow> PublicKeysEqual lib a b = Inr (rsa_PublicKey_Equal lib p b)) \<and>
   (a = ECDSAPublicKey e \<longrightarrow> PublicKeysEqual lib a b = Inr (ecdsa_PublicKey_Equal lib e b)) \<and>
   (a = Ed25519PublicKey d \<longrightarrow>
      PublicKeysEqual lib a b = Inr (ed25519_PublicKey_Equal lib d b)) \<and>
   (a = RSAPublicKey p \<and> (\<forall>x. b \<noteq> RSAPublicKey x) \<longrightarrow>
      PublicKeysEqual lib a b = Inr False) \<and>
   (a = ECDSAPublicKey e \<and> (\<forall>x. b \<noteq> ECDSAPublicKey x) \<longrightarrow>
      PublicKeysEqual lib a b = Inr False) \<and>
   (a = Ed25519PublicKey d \<and> (\<forall>x. b \<noteq> Ed25519PublicKey x) \<longrightarrow>
      PublicKeysEqual lib a b = Inr False) \<and>
   (a = OtherPublicKey t \<longrightarrow>
      PublicKeysEqual lib a b = Inl (UnrecognisedKeyType t) \<and>
      Error (UnrecognisedKeyType t) = ''unrecognised public key type: '' @ t)"
  using assms by (simp add: PublicKeysEqual_def)

theorem PublicKeysEqual_first_argument_witness:
  "PublicKeysEqual sample_crypto (RSAPublicKey \<lparr>rsa_N = 3233, rsa_E = 17\<rparr>)
     (ECDSAPublicKey \<lparr>ecdsa_Curve = P256, ecdsa_X = 3233, ecdsa_Y = 17\<rparr>) = Inr False \<and>
   PublicKeysEqual sample_crypto (RSAPublicKey \<lparr>rsa_N = 3233, rsa_E = 17\<rparr>)
     (OtherPublicKey ''*dsa.PublicKey'') = Inr False \<and>
   PublicKeysEqual sample_crypto (RSAPublicKey \<lparr>rsa_N = 3233, rsa_E = 17\<rparr>)
     (RSAPublicKey \<lparr>rsa_N = 3233, rsa_E = 17\<rparr>) = Inr True \<and>
   PublicKeysEqual sample_crypto (Ed25519PublicKey [1, 2])
     (RSAPublicKey \<lparr>rsa_N = 3233, rsa_E = 17\<rparr>) = Inr False \<and>
   PublicKeysEqual sample_crypto (OtherPublicKey ''*dsa.PublicKey'')
     (RSAPublicKey \<lparr>rsa_N = 3233, rsa_E = 17\<rparr>) = Inl (UnrecognisedKeyType ''*dsa.PublicKey'') \<and>
   PublicKeysEqual sample_crypto (OtherPublicKey ''*dsa.PublicKey'')
     (OtherPublicKey ''*dsa.PublicKey'') = Inl (UnrecognisedKeyType ''*dsa.PublicKey'') \<and>
   Error (UnrecognisedKeyType ''*dsa.PublicKey'') = ''unrecognised public key type: *dsa.PublicKey''"
proof -
  let ?p = "\<lparr>rsa_N = 3233, rsa_E = 17\<rparr>"
  let ?rsa = "RSAPublicKey ?p"
  let ?ec = "ECDSAPublicKey \<lparr>ecdsa_Curve = P256, ecdsa_X = 3233, ecdsa_Y = 17\<rparr>"
  let ?ed = "Ed25519PublicKey [1, 2]"
  let ?dsa = "OtherPublicKey ''*dsa.PublicKey''"
  have 1: "\<forall>pub x. (\<forall>xx. x \<noteq> RSAPublicKey xx) \<longrightarrow> \<not> rsa_PublicKey_Equal sample_crypto pub x"
    by (auto simp add: sample_crypto_sel split: PublicKey.split)
  have 2: "\<forall>pub x. (\<forall>xx. x \<noteq> ECDSAPublicKey xx) \<longrightarrow> \<not> ecdsa_PublicKey_Equal sample_crypto pub x"
    by (auto simp add: sample_crypto_sel split: PublicKey.split)
  have 3: "\<forall>pub x. (\<forall>xx. x \<noteq> Ed25519PublicKey xx) \<longrightarrow>
      \<not> ed25519_PublicKey_Equal sample_crypto pub x"
    by (auto simp add: sample_crypto_sel split: PublicKey.split)
  note eq = PublicKeysEqual_first_argument [OF 1 2 3]
  have "PublicKeysEqual sample_crypto ?rsa ?ec = Inr False"
    using eq [of ?rsa ?p ?ec] by (simp add: sample_crypto_sel)
  moreover have "PublicKeysEqual sample_crypto ?rsa ?dsa = Inr False"
    using eq [of ?rsa ?p ?dsa] by (simp add: sample_crypto_sel)
  moreover have "PublicKeysEqual sample_crypto ?rsa ?rsa = Inr True"
    using eq [of ?rsa ?p ?rsa] by (simp add: sample_crypto_sel)
  moreover have "PublicKeysEqual sample_crypto ?ed ?rsa = Inr False"
    using eq [of ?ed _ ?rsa _ "[1, 2]"] by (simp add: sample_crypto_sel)
  moreover have "PublicKeysEqual sample_crypto ?dsa ?rsa = Inl (UnrecognisedKeyType ''*dsa.PublicKey'')"
    using eq [of ?dsa _ ?rsa _ _ "''*dsa.PublicKey''"] by simp
  moreover have "PublicKeysEqual sample_crypto ?dsa ?dsa = Inl (UnrecognisedKeyType ''*dsa.PublicKey'')"
    using eq [of ?dsa _ ?dsa _ _ "''*dsa.PublicKey''"] by simp
  ultimately show ?thesis
    by simp
qed

subsection \<open>The certificate of the caller is not written to\<close>

text \<open>
  C9. For every store and every pointer, \<open>GeneratePrivateKeyForCertificate\<close> leaves
  every object of the store as it was: the store it returns begins with the
  certificates and with the private-key sections of the store it was given, and only
  adds objects. In particular, for a certificate without a private-key section the
  new section is allocated and assigned in the copy, the last certificate of the
  store returned, while the certificate of the caller still has none.
\<close>

theorem GeneratePrivateKeyForCertificate_frame:
  "take (length (certs h)) (certs (fst (GeneratePrivateKeyForCertificate lib rnd h crt))) =
     certs h \<and>
   take (length (pkeys h)) (pkeys (fst (GeneratePrivateKeyForCertificate lib rnd h crt))) =
     pkeys h \<and>
   (\<forall>c. deref (certs h) crt = Some c \<and> Spec_PrivateKey c = None \<longrightarrow>
      fst (GeneratePrivateKeyForCertificate lib rnd h crt) =
        h\<lparr>pkeys := pkeys h @ [zero_CertificatePrivateKey],
          certs := certs h @ [c\<lparr>Spec_PrivateKey := Some (length (pkeys h))\<rparr>]\<rparr>)"
proof (cases "deref (certs h) crt")
  case None
  then show ?thesis
    by (simp add: GeneratePrivateKeyForCertificate_None)
next
  case (Some c)
  then show ?thesis
    by (simp add: GeneratePrivateKeyForCertificate_Some deref_def split: option.split)
qed

theorem GeneratePrivateKeyForCertificate_frame_witness:
  "fst (GeneratePrivateKeyForCertificate sample_crypto 7 sample_heap (Some 0)) =
     sample_heap\<lparr>pkeys := pkeys sample_heap @ [zero_CertificatePrivateKey],
       certs := certs sample_heap @ [\<lparr>Name = ''web'', Spec_PrivateKey = Some 5\<rparr>]\<rparr> \<and>
   certs (fst (GeneratePrivateKeyForCertificate sample_crypto 7 sample_heap (Some 0))) ! 0 =
     \<lparr>Name = ''web'', Spec_PrivateKey = None\<rparr>"
proof -
  have "fst (GeneratePrivateKeyForCertificate sample_crypto 7 sample_heap (Some 0)) =
     sample_heap\<lparr>pkeys := pkeys sample_heap @ [zero_CertificatePrivateKey],
       certs := certs sample_heap @
         [\<lparr>Name = ''web'', Spec_PrivateKey = Some (length (pkeys sample_heap))\<rparr>]\<rparr>"
    using GeneratePrivateKeyForCertificate_frame [of sample_heap sample_crypto 7 "Some 0"]
    by (simp add: sample_heap_deref)
  then show ?thesis
    by (simp add: sample_heap_def)
qed

subsection \<open>Negative sizes\<close>

text \<open>
  C10. For a certificate whose section has a size below zero,
  \<open>GeneratePrivateKeyForCertificate\<close> does not hand the size to the generator: with
  the empty algorithm or RSA it returns what the library's RSA generator returns for
  2048 bits, with ECDSA what the library's ECDSA generator returns for P-256, and its
  result is the one it has for the same store with the size of the section set to
  zero.
\<close>

theorem GeneratePrivateKeyForCertificate_negative_size:
  assumes "deref (certs h) crt = Some c"
    and "Spec_PrivateKey c = Some q" and "q < length (pkeys h)"
    and "Size (pkeys h ! q) < 0"
    and "r = snd (GeneratePrivateKeyForCertificate lib rnd h crt)"
  shows "(Algorithm (pkeys h ! q) = [] \<or> Algorithm (pkeys h ! q) = RSAKeyAlgorithm \<longrightarrow>
       r = Some (as_Signer RSAPrivateKey (rsa_GenerateKey lib rnd 2048))) \<and>
    (Algorithm (pkeys h ! q) = ECDSAKeyAlgorithm \<longrightarrow>
       r = Some (as_Signer ECDSAPrivateKey (ecdsa_GenerateKey lib P256 rnd))) \<and>
    r = snd (GeneratePrivateKeyForCertificate lib rnd
          (h\<lparr>pkeys := (pkeys h)[q := (pkeys h ! q)\<lparr>Size := 0\<rparr>]\<rparr>) crt)"
proof -
  let ?h = "h\<lparr>pkeys := (pkeys h)[q := (pkeys h ! q)\<lparr>Size := 0\<rparr>]\<rparr>"
  have c': "deref (certs ?h) crt = Some c"
    using assms(1) by simp
  have pk: "deref (pkeys h) (Spec_PrivateKey c) = Some (pkeys h ! q)"
    using assms(2,3) by (simp add: deref_def)
  have pk': "deref (pkeys ?h) (Spec_PrivateKey c) = Some ((pkeys h ! q)\<lparr>Size := 0\<rparr>)"
    using assms(2,3) by (simp add: deref_def)
  show ?thesis
    unfolding assms(5) GeneratePrivateKeyForCertificate_Some [OF assms(1)]
      GeneratePrivateKeyForCertificate_Some [OF c'] pk pk'
    using assms(4)
    by (simp add: switch_Algorithm_def selector_distinct in_range_RSA P256_EC
        MinRSAKeySize_def ECCurve256_def)
qed

theorem GeneratePrivateKeyForCertificate_negative_size_witness:
  "snd (GeneratePrivateKeyForCertificate sample_crypto 7 sample_heap (Some 4)) =
     Some (Inr (RSAPrivateKey \<lparr>rsa_N = 2 ^ 2047, rsa_E = 65537, rsa_D = 7, rsa_Primes = []\<rparr>))"
proof -
  have "snd (GeneratePrivateKeyForCertificate sample_crypto 7 sample_heap (Some 4)) =
      Some (as_Signer RSAPrivateKey (rsa_GenerateKey sample_crypto 7 2048))"
    using GeneratePrivateKeyForCertificate_negative_size
      [where lib = sample_crypto and rnd = 7 and q = 3, OF sample_heap_deref(5) _ _ _ refl]
    by (simp add: sample_heap_def RSAKeyAlgorithm_def)
  then show ?thesis
    by (simp add: as_Signer_def sample_crypto_sel)
qed

end
